theory Spec2Isabelle
  imports Complex_Main "HOL-Library.Sublist"
begin

section \<open>Data model (portfolio\_types.py)\<close>

text \<open>
  Python floats are modelled as real numbers: the arithmetic of the model is exact, so
  rounding and signed zeros are outside it. The one computation of the program that
  leaves the finite numbers on finite operands is the division by an average cost of
  zero, so the field \<open>gain_loss_percent\<close> has the type \<open>pyfloat\<close>, which adds the two
  infinities and NaN. Strings are lists of 8-bit characters;
  the case conversions below act on the ASCII letters. Field names carry a prefix per
  record, since several of the source's dictionaries share the key \<open>symbol\<close>.
\<close>

datatype SentimentIndicator = POSITIVE | NEUTRAL | NEGATIVE

datatype pyfloat = Fin real | PInf | NInf | NaN

datatype ActionType = BUY | SELL | HOLD | WATCH

record PortfolioHolding =
  h_symbol :: string
  h_quantity :: real
  h_avg_cost :: real
  h_current_price :: "real option"
  h_value :: "real option"
  h_gain_loss :: "real option"
  h_gain_loss_percent :: "pyfloat option"

record PortfolioData =
  holdings :: "PortfolioHolding list"
  total_value :: real
  total_gain_loss :: real
  total_gain_loss_percent :: real
  last_updated :: nat

record NewsItem =
  n_title :: string
  n_content :: string
  n_source :: string
  n_url :: string
  n_published_at :: nat
  n_sentiment :: SentimentIndicator
  n_relevance_score :: real

record MarketData =
  md_symbol :: string
  md_price :: real
  md_change :: real
  md_change_percent :: real
  md_volume :: int
  md_market_cap :: "real option"
  md_pe_ratio :: "real option"
  md_day_high :: "real option"
  md_day_low :: "real option"

text \<open>The values stored in the \<open>technical_indicators\<close> dictionary.\<close>

datatype indicator = FloatV real | IntV int | OptFloatV "real option"

record 's AnalysisResult =
  ar_symbol :: 's
  ar_current_price :: real
  ar_sentiment :: SentimentIndicator
  ar_news_summary :: "NewsItem list"
  ar_technical_indicators :: "(string \<times> indicator) list"
  ar_recommendation :: ActionType
  ar_confidence :: real
  ar_reasoning :: string

section \<open>Recommendation engine (tools.py, PortfolioAnalyzer)\<close>

text \<open>
  The comparisons \<open>x > y\<close> and \<open>x < y\<close> of a float with a finite number, and
  \<open>abs\<close>: every comparison with NaN is false.
\<close>

fun pf_gt :: "pyfloat \<Rightarrow> real \<Rightarrow> bool" where
  "pf_gt (Fin x) y = (x > y)"
| "pf_gt PInf y = True"
| "pf_gt NInf y = False"
| "pf_gt NaN y = False"

fun pf_lt :: "pyfloat \<Rightarrow> real \<Rightarrow> bool" where
  "pf_lt (Fin x) y = (x < y)"
| "pf_lt PInf y = False"
| "pf_lt NInf y = True"
| "pf_lt NaN y = False"

fun pf_abs :: "pyfloat \<Rightarrow> pyfloat" where
  "pf_abs (Fin x) = Fin \<bar>x\<bar>"
| "pf_abs PInf = PInf"
| "pf_abs NInf = PInf"
| "pf_abs NaN = NaN"

text \<open>\<open>sep.join(parts)\<close> of Python.\<close>

fun py_join :: "string \<Rightarrow> string list \<Rightarrow> string" where
  "py_join sep [] = []"
| "py_join sep [x] = x"
| "py_join sep (x # y # ys) = x @ sep @ py_join sep (y # ys)"

text \<open>
  \<open>_generate_recommendation\<close>. The parameter \<open>fmt\<close> stands for the format
  specification \<open>:.1f\<close> of the f-strings. The three blocks of the source update
  \<open>base_action\<close>, \<open>base_confidence\<close> and \<open>reasoning_parts\<close> in sequence; the
  test on the holding is \<open>holding and holding.get('gain_loss_percent') is not None\<close>.
\<close>

definition generate_recommendation ::
  "(pyfloat \<Rightarrow> string) \<Rightarrow> MarketData \<Rightarrow> SentimentIndicator \<Rightarrow> NewsItem list
     \<Rightarrow> PortfolioHolding option \<Rightarrow> ActionType \<times> real \<times> string" where
  "generate_recommendation fmt market_data sentiment news holding =
    (let change_percent = md_change_percent market_data;
         (a1, c1, r1) =
           (if change_percent > 5 then
              (BUY, 0.7, [''Price is up '' @ fmt (Fin change_percent) @ ''%''])
            else if change_percent < - 5 then
              (SELL, 0.7, [''Price is down '' @ fmt (Fin \<bar>change_percent\<bar>) @ ''%''])
            else (HOLD, 0.5, [''Price is relatively stable'']));
         (a2, c2, r2) =
           (if sentiment = POSITIVE then
              (if a1 = BUY then (a1, min (c1 + 0.2) 1.0, r1 @ [''Positive news sentiment''])
               else if a1 = SELL then (HOLD, max (c1 - 0.2) 0.1, r1 @ [''Positive news sentiment''])
               else (a1, c1, r1 @ [''Positive news sentiment'']))
            else if sentiment = NEGATIVE then
              (if a1 = SELL then (a1, min (c1 + 0.2) 1.0, r1 @ [''Negative news sentiment''])
               else if a1 = BUY then (HOLD, max (c1 - 0.2) 0.1, r1 @ [''Negative news sentiment''])
               else (a1, c1, r1 @ [''Negative news sentiment'']))
            else (a1, c1, r1));
         (a3, c3, r3) =
           (case holding of
              None \<Rightarrow> (a2, c2, r2)
            | Some h \<Rightarrow>
               (case h_gain_loss_percent h of
                  None \<Rightarrow> (a2, c2, r2)
                | Some gain_loss_percent \<Rightarrow>
                   (if pf_gt gain_loss_percent 20 then
                      (if a2 = BUY then
                         (HOLD, max (c2 - 0.1) 0.3,
                          r2 @ [''You have '' @ fmt gain_loss_percent @ ''% gains''])
                       else (a2, c2, r2 @ [''You have '' @ fmt gain_loss_percent @ ''% gains'']))
                    else if pf_lt gain_loss_percent (- 20) then
                      (a2, c2,
                       r2 @ [''You have '' @ fmt (pf_abs gain_loss_percent) @ ''% losses''])
                    else (a2, c2, r2))))
     in (a3, c3, py_join ''. '' r3 @ ''.''))"

text \<open>
  The aggregation of the per-article labels inside \<open>analyze_symbol\<close>: the two
  \<open>sum(1 for item in news_items if ...)\<close> counters and the comparison.
\<close>

definition positive_count :: "NewsItem list \<Rightarrow> nat" where
  "positive_count news_items = sum_list (map (\<lambda>item. 1) (filter (\<lambda>item. n_sentiment item = POSITIVE) news_items))"

definition negative_count :: "NewsItem list \<Rightarrow> nat" where
  "negative_count news_items = sum_list (map (\<lambda>item. 1) (filter (\<lambda>item. n_sentiment item = NEGATIVE) news_items))"

definition overall_sentiment :: "NewsItem list \<Rightarrow> SentimentIndicator" where
  "overall_sentiment news_items =
    (if news_items \<noteq> [] then
       (if positive_count news_items > negative_count news_items then POSITIVE
        else if negative_count news_items > positive_count news_items then NEGATIVE
        else NEUTRAL)
     else NEUTRAL)"

text \<open>
  \<open>analyze_symbol\<close>. The two gateways are parameters: \<open>get_market_data\<close> returns
  \<open>None\<close> on any failure and \<open>get_stock_news\<close> returns a (possibly empty) list.
  The type \<open>'s\<close> of the symbol is left open: the function only passes it on, and
  the orchestrator calls it with whatever the classifier extracted.
\<close>

definition analyze_symbol ::
  "(pyfloat \<Rightarrow> string) \<Rightarrow> ('s \<Rightarrow> MarketData option) \<Rightarrow> ('s \<Rightarrow> NewsItem list)
     \<Rightarrow> 's \<Rightarrow> PortfolioHolding option \<Rightarrow> 's AnalysisResult" where
  "analyze_symbol fmt get_market_data get_stock_news symbol holding =
    (case get_market_data symbol of
       None \<Rightarrow>
         \<lparr>ar_symbol = symbol, ar_current_price = 0.0, ar_sentiment = NEUTRAL,
          ar_news_summary = [], ar_technical_indicators = [],
          ar_recommendation = WATCH, ar_confidence = 0.0,
          ar_reasoning = ''Unable to fetch market data''\<rparr>
     | Some market_data \<Rightarrow>
         (let news_items = get_stock_news symbol;
              sentiment = overall_sentiment news_items;
              (recommendation, confidence, reasoning) =
                 generate_recommendation fmt market_data sentiment news_items holding
          in \<lparr>ar_symbol = symbol, ar_current_price = md_price market_data,
              ar_sentiment = sentiment,
              ar_news_summary = take 3 news_items,
              ar_technical_indicators =
                [(''change_percent'', FloatV (md_change_percent market_data)),
                 (''volume'', IntV (md_volume market_data)),
                 (''pe_ratio'', OptFloatV (md_pe_ratio market_data))],
              ar_recommendation = recommendation, ar_confidence = confidence,
              ar_reasoning = reasoning\<rparr>))"

section \<open>Strings of Python\<close>

text \<open>
  \<open>str.lower\<close>, \<open>str.upper\<close> and \<open>str.strip\<close> on ASCII text, \<open>sub in s\<close> and
  \<open>s.count(sub)\<close>. The count is the number of non-overlapping occurrences found
  from left to right; for the empty string Python returns \<open>len(s) + 1\<close>.
\<close>

definition lower_char :: "char \<Rightarrow> char" where
  "lower_char c =
    (if 65 \<le> (of_char c :: nat) \<and> (of_char c :: nat) \<le> 90 then char_of ((of_char c :: nat) + 32) else c)"

definition upper_char :: "char \<Rightarrow> char" where
  "upper_char c =
    (if 97 \<le> (of_char c :: nat) \<and> (of_char c :: nat) \<le> 122 then char_of ((of_char c :: nat) - 32) else c)"

definition py_lower :: "string \<Rightarrow> string" where
  "py_lower s = map lower_char s"

definition py_upper :: "string \<Rightarrow> string" where
  "py_upper s = map upper_char s"

definition is_space :: "char \<Rightarrow> bool" where
  "is_space c = ((of_char c :: nat) \<in> {9, 10, 11, 12, 13, 28, 29, 30, 31, 32})"

definition py_strip :: "string \<Rightarrow> string" where
  "py_strip s = rev (dropWhile is_space (rev (dropWhile is_space s)))"

fun py_contains :: "string \<Rightarrow> string \<Rightarrow> bool" where
  "py_contains sub [] = (sub = [])"
| "py_contains sub (c # cs) = (prefix sub (c # cs) \<or> py_contains sub cs)"

function py_count :: "string \<Rightarrow> string \<Rightarrow> nat" where
  "py_count sub s =
    (if sub = [] then length s + 1
     else if length s < length sub then 0
     else if take (length sub) s = sub then 1 + py_count sub (drop (length sub) s)
     else py_count sub (tl s))"
  by pat_completeness auto
termination
proof (relation "measure (\<lambda>(sub, s). length s)")
  fix sub s :: string
  assume "sub \<noteq> []" and "\<not> length s < length sub"
  then have "0 < length sub" and "0 < length s" by (cases sub; cases s; simp)+
  then show "((sub, drop (length sub) s), (sub, s)) \<in> measure (\<lambda>(sub, s). length s)"
    and "((sub, tl s), (sub, s)) \<in> measure (\<lambda>(sub, s). length s)"
    by simp_all
qed simp

section \<open>News gateway: relevance (tools.py, NewsManager)\<close>

definition financial_keywords :: "string list" where
  "financial_keywords =
    [''stock'', ''share'', ''trading'', ''market'', ''price'', ''investment'', ''portfolio'']"

text \<open>\<open>_calculate_relevance\<close>.\<close>

definition calculate_relevance :: "string \<Rightarrow> string \<Rightarrow> real" where
  "calculate_relevance text symbol =
    (let text_lower = py_lower text;
         symbol_lower = py_lower symbol;
         symbol_count = py_count symbol_lower text_lower;
         keyword_count =
           sum_list (map (\<lambda>keyword. 1::nat)
             (filter (\<lambda>keyword. py_contains keyword text_lower) financial_keywords));
         relevance = real symbol_count * 0.6 + real keyword_count * 0.4
     in min relevance 1.0)"

section \<open>Portfolio enricher (tools.py, PortfolioAnalyzer)\<close>

datatype py_error =
  ValueError | KeyError | TypeError | AttributeError | IndexError | OSError

text \<open>
  \<open>get_multiple_market_data\<close>: one call of the gateway per symbol, and an entry in the
  dictionary only for a symbol that has a quote.
\<close>

definition get_multiple_market_data ::
  "(string \<Rightarrow> MarketData option) \<Rightarrow> string list \<Rightarrow> (string \<rightharpoonup> MarketData)" where
  "get_multiple_market_data get_market_data symbols =
    foldl (\<lambda>data symbol.
             (case get_market_data symbol of
                None \<Rightarrow> data
              | Some market_data \<Rightarrow> data(symbol \<mapsto> market_data)))
          Map.empty symbols"

text \<open>
  The division \<open>x / y\<close> where \<open>x\<close> is a \<open>numpy.float64\<close>: the price that
  \<open>get_market_data\<close> stores is \<open>history['Close'].iloc[-1]\<close>, a \<open>numpy.float64\<close>,
  and so is its difference with the average cost. Such a division does not raise on a
  zero divisor: it gives an infinity with the sign of \<open>x\<close>, or NaN for \<open>0 / 0\<close>
  (and a warning). \<open>pf_times\<close> is the product of the quotient with a finite number.
\<close>

definition np_truediv :: "real \<Rightarrow> real \<Rightarrow> pyfloat" where
  "np_truediv x y =
    (if y \<noteq> 0 then Fin (x / y)
     else if x > 0 then PInf
     else if x < 0 then NInf
     else NaN)"

fun pf_times :: "pyfloat \<Rightarrow> real \<Rightarrow> pyfloat" where
  "pf_times (Fin x) k = Fin (x * k)"
| "pf_times PInf k = (if k > 0 then PInf else if k < 0 then NInf else NaN)"
| "pf_times NInf k = (if k > 0 then NInf else if k < 0 then PInf else NaN)"
| "pf_times NaN k = NaN"

text \<open>
  The body of the loop of \<open>update_portfolio_with_market_data\<close> for one holding that
  has a quote. There is no test on the average cost.
\<close>

definition enrich_holding :: "MarketData \<Rightarrow> PortfolioHolding \<Rightarrow> PortfolioHolding" where
  "enrich_holding market_data holding =
    holding
      \<lparr>h_current_price := Some (md_price market_data),
       h_value := Some (h_quantity holding * md_price market_data),
       h_gain_loss := Some ((md_price market_data - h_avg_cost holding) * h_quantity holding),
       h_gain_loss_percent :=
         Some (pf_times (np_truediv (md_price market_data - h_avg_cost holding)
                           (h_avg_cost holding)) 100)\<rparr>"

text \<open>
  The loop over the holdings, with the two running totals. The result is the list of
  holdings after the loop and the totals.
\<close>

fun enrich_loop ::
  "(string \<rightharpoonup> MarketData) \<Rightarrow> PortfolioHolding list \<Rightarrow> real \<Rightarrow> real
     \<Rightarrow> PortfolioHolding list \<times> real \<times> real" where
  "enrich_loop market_data_dict [] tv tgl = ([], tv, tgl)"
| "enrich_loop market_data_dict (holding # rest) tv tgl =
    (case market_data_dict (h_symbol holding) of
       None \<Rightarrow>
         (case enrich_loop market_data_dict rest tv tgl of
            (rest', tv', tgl') \<Rightarrow> (holding # rest', tv', tgl'))
     | Some market_data \<Rightarrow>
         (let holding' = enrich_holding market_data holding
          in case enrich_loop market_data_dict rest
                    (tv + the (h_value holding')) (tgl + the (h_gain_loss holding')) of
               (rest', tv', tgl') \<Rightarrow> (holding' # rest', tv', tgl')))"

text \<open>
  Lines 338 to 358 of \<open>update_portfolio_with_market_data\<close>, for a given batch result
  \<open>market_data_dict\<close>; \<open>now\<close> is the value of \<open>datetime.now()\<close>.
\<close>

definition update_portfolio_with_quotes ::
  "(string \<rightharpoonup> MarketData) \<Rightarrow> nat \<Rightarrow> PortfolioData \<Rightarrow> PortfolioData" where
  "update_portfolio_with_quotes market_data_dict now portfolio =
    (case enrich_loop market_data_dict (holdings portfolio) 0.0 0.0 of
       (holdings', tv, tgl) \<Rightarrow>
         portfolio
           \<lparr>holdings := holdings',
            total_value := tv,
            total_gain_loss := tgl,
            total_gain_loss_percent := (if tv \<noteq> tgl then (tgl / (tv - tgl)) * 100 else 0),
            last_updated := now\<rparr>)"

definition update_portfolio_with_market_data ::
  "(string \<Rightarrow> MarketData option) \<Rightarrow> nat \<Rightarrow> PortfolioData \<Rightarrow> PortfolioData" where
  "update_portfolio_with_market_data get_market_data now portfolio =
    (let symbols = map h_symbol (holdings portfolio);
         market_data_dict = get_multiple_market_data get_market_data symbols
     in update_portfolio_with_quotes market_data_dict now portfolio)"

section \<open>Ledger reader (tools.py, CSVPortfolioManager)\<close>

text \<open>
  A row of \<open>csv.DictReader\<close> maps each column of the header to the text of its cell;
  for a row that is shorter than the header the missing cells hold \<open>None\<close>
  (\<open>restval\<close>). So a lookup gives \<open>None\<close> for a column the header does not have,
  \<open>Some None\<close> for a missing cell and \<open>Some (Some s)\<close> for the text \<open>s\<close>.
  The file is missing, or cannot be opened or decoded, or gives a list of rows.
\<close>

type_synonym csv_row = "string \<rightharpoonup> string option"

datatype ledger_file = Missing | Unreadable | Rows "csv_row list"

text \<open>
  \<open>float(x)\<close> on a cell: \<open>TypeError\<close> for \<open>None\<close>, \<open>ValueError\<close> for a text
  that is not a number. The parser of the text is the parameter \<open>to_float\<close>.
\<close>

definition py_float :: "(string \<Rightarrow> real option) \<Rightarrow> string option \<Rightarrow> py_error + real" where
  "py_float to_float cell =
    (case cell of
       None \<Rightarrow> Inl TypeError
     | Some s \<Rightarrow> (case to_float s of None \<Rightarrow> Inl ValueError | Some x \<Rightarrow> Inr x))"

text \<open>\<open>row[key]\<close>.\<close>

definition row_item :: "csv_row \<Rightarrow> string \<Rightarrow> py_error + string option" where
  "row_item row key = (case row key of None \<Rightarrow> Inl KeyError | Some cell \<Rightarrow> Inr cell)"

text \<open>
  The body of the inner \<open>try\<close> for one row: \<open>Inr None\<close> is the \<open>continue\<close> of a
  blank symbol, \<open>Inr (Some holding)\<close> the holding that is appended, \<open>Inl e\<close> the
  exception raised. The arguments of \<open>PortfolioHolding(...)\<close> are evaluated in order.
\<close>

definition parse_row :: "(string \<Rightarrow> real option) \<Rightarrow> csv_row \<Rightarrow> py_error + PortfolioHolding option" where
  "parse_row to_float row =
    (case (case row ''Symbol'' of None \<Rightarrow> Some [] | Some cell \<Rightarrow> cell) of
       None \<Rightarrow> Inl AttributeError
     | Some s \<Rightarrow>
         if py_strip s = [] then Inr None
         else
           (case row_item row ''Quantity'' of
              Inl e \<Rightarrow> Inl e
            | Inr q_cell \<Rightarrow>
               (case py_float to_float q_cell of
                  Inl e \<Rightarrow> Inl e
                | Inr q \<Rightarrow>
                   (case row_item row ''Average Cost'' of
                      Inl e \<Rightarrow> Inl e
                    | Inr c_cell \<Rightarrow>
                       (case py_float to_float c_cell of
                          Inl e \<Rightarrow> Inl e
                        | Inr c \<Rightarrow>
                           Inr (Some \<lparr>h_symbol = py_strip (py_upper s), h_quantity = q,
                                      h_avg_cost = c, h_current_price = None, h_value = None,
                                      h_gain_loss = None, h_gain_loss_percent = None\<rparr>))))))"

text \<open>
  The \<open>for\<close> loop over the rows; \<open>acc\<close> is the list \<open>holdings\<close> of the source.
  The inner handler catches \<open>ValueError\<close> and
  \<open>KeyError\<close> only and goes on with the next row; any other exception leaves the loop.
\<close>

fun read_rows ::
  "(string \<Rightarrow> real option) \<Rightarrow> csv_row list \<Rightarrow> PortfolioHolding list
     \<Rightarrow> py_error + PortfolioHolding list" where
  "read_rows to_float [] acc = Inr acc"
| "read_rows to_float (row # rows) acc =
    (case parse_row to_float row of
       Inr None \<Rightarrow> read_rows to_float rows acc
     | Inr (Some holding) \<Rightarrow> read_rows to_float rows (acc @ [holding])
     | Inl e \<Rightarrow>
         if e = ValueError \<or> e = KeyError then read_rows to_float rows acc
         else Inl e)"

definition empty_snapshot :: "nat \<Rightarrow> PortfolioData" where
  "empty_snapshot now =
    \<lparr>holdings = [], total_value = 0.0, total_gain_loss = 0.0,
     total_gain_loss_percent = 0.0, last_updated = now\<rparr>"

text \<open>The body of the outer \<open>try\<close> of \<open>get_portfolio_data\<close>.\<close>

definition get_portfolio_data_body ::
  "(string \<Rightarrow> real option) \<Rightarrow> nat \<Rightarrow> ledger_file \<Rightarrow> py_error + PortfolioData" where
  "get_portfolio_data_body to_float now file =
    (case file of
       Missing \<Rightarrow> Inr (empty_snapshot now)
     | Unreadable \<Rightarrow> Inl OSError
     | Rows rows \<Rightarrow>
         (case read_rows to_float rows [] of
            Inl e \<Rightarrow> Inl e
          | Inr acc \<Rightarrow>
              Inr \<lparr>holdings = acc, total_value = 0.0, total_gain_loss = 0.0,
                   total_gain_loss_percent = 0.0, last_updated = now\<rparr>))"

text \<open>\<open>get_portfolio_data\<close>: the outer handler \<open>except Exception\<close> catches every exception.\<close>

definition get_portfolio_data ::
  "(string \<Rightarrow> real option) \<Rightarrow> nat \<Rightarrow> ledger_file \<Rightarrow> py_error + PortfolioData" where
  "get_portfolio_data to_float now file =
    (case get_portfolio_data_body to_float now file of
       Inl e \<Rightarrow> Inr (empty_snapshot now)
     | Inr portfolio \<Rightarrow> Inr portfolio)"

section \<open>Conversation orchestrator (agent.py, PortfolioBuddyAgent)\<close>

text \<open>The values that \<open>json.loads\<close> returns, and their truth value in a condition.\<close>

datatype json =
  JNull | JBool bool | JNum real | JStr string | JArr "json list" | JObj "(string \<times> json) list"

fun py_truthy :: "json \<Rightarrow> bool" where
  "py_truthy JNull = False"
| "py_truthy (JBool b) = b"
| "py_truthy (JNum x) = (x \<noteq> 0)"
| "py_truthy (JStr s) = (s \<noteq> [])"
| "py_truthy (JArr xs) = (xs \<noteq> [])"
| "py_truthy (JObj kv) = (kv \<noteq> [])"

text \<open>\<open>d.get(key, default)\<close> on a parsed object.\<close>

definition dict_get :: "(string \<times> json) list \<Rightarrow> string \<Rightarrow> json \<Rightarrow> json" where
  "dict_get kv key dflt = (case map_of kv key of None \<Rightarrow> dflt | Some v \<Rightarrow> v)"

text \<open>
  \<open>for symbol in x\<close>: a list gives its elements, a string its characters, an object
  its keys; any other value is not iterable.
\<close>

fun py_iter :: "json \<Rightarrow> py_error + json list" where
  "py_iter (JArr xs) = Inr xs"
| "py_iter (JStr s) = Inr (map (\<lambda>c. JStr [c]) s)"
| "py_iter (JObj kv) = Inr (map JStr (remdups (map fst kv)))"
| "py_iter JNull = Inl TypeError"
| "py_iter (JBool b) = Inl TypeError"
| "py_iter (JNum x) = Inl TypeError"

record message =
  m_role :: string
  m_content :: string
  m_timestamp :: nat

text \<open>
  The keys of \<open>user_context\<close> that the agent writes; \<open>None\<close> is a key that is not
  in the dictionary.
\<close>

record user_context =
  uc_intent :: "json option"
  uc_symbols :: "json option"
  uc_requires_portfolio :: "json option"
  uc_all_analyses :: "json AnalysisResult list option"

record AgentState =
  messages :: "message list"
  portfolio_data :: "PortfolioData option"
  current_analysis :: "json AnalysisResult option"
  user_context :: user_context
  last_action :: "string option"

text \<open>
  Everything outside the process during one turn: the two calls of the language model
  (\<open>None\<close> when the call raises), \<open>json.loads\<close> (\<open>None\<close> when it raises), the ledger
  file, \<open>float\<close> on a text, the two gateways, the number format and the clock.
\<close>

record world =
  w_llm_classify :: "string \<Rightarrow> string option"
  w_llm_respond :: "AgentState \<Rightarrow> string option"
  w_json_loads :: "string \<Rightarrow> json option"
  w_ledger :: ledger_file
  w_to_float :: "string \<Rightarrow> real option"
  w_get_market_data :: "json \<Rightarrow> MarketData option"
  w_get_stock_news :: "json \<Rightarrow> NewsItem list"
  w_fmt1 :: "pyfloat \<Rightarrow> string"
  w_now :: nat

text \<open>
  \<open>re.search(r'\{.*\}', content, re.DOTALL)\<close>: the match starts at the first opening
  brace and, the star being greedy, ends at the last closing brace after it.
\<close>

definition re_search_braces :: "string \<Rightarrow> string option" where
  "re_search_braces content =
    (let t = dropWhile (\<lambda>c. c \<noteq> CHR ''{'') content
     in if t = [] then None
        else (let body = rev (dropWhile (\<lambda>c. c \<noteq> CHR ''}'') (rev (tl t)))
              in if body = [] then None else Some (CHR ''{'' # body)))"

definition fallback_context :: "user_context \<Rightarrow> user_context" where
  "fallback_context uc =
    uc\<lparr>uc_intent := Some (JStr ''general_question''),
       uc_symbols := Some (JArr []),
       uc_requires_portfolio := Some (JBool False)\<rparr>"

text \<open>
  The \<open>try\<close> block of \<open>_process_message\<close> up to the three assignments: the parsed
  object, or the exception. A parsed value that is not an object has no \<open>get\<close>.
\<close>

definition classify :: "world \<Rightarrow> string \<Rightarrow> py_error + (string \<times> json) list" where
  "classify w latest_message =
    (case w_llm_classify w latest_message of
       None \<Rightarrow> Inl OSError
     | Some response \<Rightarrow>
         (let content = py_strip response;
              loaded = (case re_search_braces content of
                          Some json_str \<Rightarrow> w_json_loads w json_str
                        | None \<Rightarrow> w_json_loads w content)
          in case loaded of
               None \<Rightarrow> Inl ValueError
             | Some (JObj analysis) \<Rightarrow> Inr analysis
             | Some _ \<Rightarrow> Inl AttributeError))"

text \<open>
  \<open>_process_message\<close>. Reading the latest message is outside the \<open>try\<close>, so an
  empty list of messages raises.
\<close>

definition process_message :: "world \<Rightarrow> AgentState \<Rightarrow> py_error + AgentState" where
  "process_message w state =
    (if messages state = [] then Inl IndexError
     else
       (case classify w (m_content (last (messages state))) of
          Inr analysis \<Rightarrow>
            Inr (state\<lparr>user_context := (user_context state)
                   \<lparr>uc_intent := Some (dict_get analysis ''intent'' (JStr ''general_question'')),
                    uc_symbols := Some (dict_get analysis ''symbols'' (JArr [])),
                    uc_requires_portfolio :=
                      Some (dict_get analysis ''requires_portfolio'' (JBool False))\<rparr>\<rparr>)
        | Inl e \<Rightarrow>
            Inr (state\<lparr>user_context := fallback_context (user_context state)\<rparr>)))"

text \<open>\<open>_should_fetch_portfolio\<close>.\<close>

definition should_fetch_portfolio :: "AgentState \<Rightarrow> string" where
  "should_fetch_portfolio state =
    (if py_truthy (case uc_requires_portfolio (user_context state) of
                     None \<Rightarrow> JBool False | Some v \<Rightarrow> v) then ''fetch_portfolio''
     else if (case uc_intent (user_context state) of
                None \<Rightarrow> False
              | Some i \<Rightarrow> List.member [JStr ''portfolio_query'', JStr ''stock_analysis''] i)
       then ''fetch_portfolio''
     else ''generate_response'')"

text \<open>\<open>_fetch_portfolio\<close>: the body of the \<open>try\<close>, then the step with its handler.\<close>

definition fetch_portfolio_body :: "world \<Rightarrow> py_error + PortfolioData" where
  "fetch_portfolio_body w =
    (case get_portfolio_data (w_to_float w) (w_now w) (w_ledger w) of
       Inl e \<Rightarrow> Inl e
     | Inr portfolio \<Rightarrow>
         Inr (update_portfolio_with_market_data
                (\<lambda>symbol. w_get_market_data w (JStr symbol)) (w_now w) portfolio))"

definition fetch_portfolio :: "world \<Rightarrow> AgentState \<Rightarrow> AgentState" where
  "fetch_portfolio w state =
    (case fetch_portfolio_body w of
       Inr portfolio \<Rightarrow> state\<lparr>portfolio_data := Some portfolio\<rparr>
     | Inl e \<Rightarrow> state\<lparr>portfolio_data := None\<rparr>)"

text \<open>
  \<open>_analyze_portfolio\<close>: the body of the \<open>try\<close> up to the list \<open>analyses\<close>, then
  the step with its handler.
\<close>

definition analyze_portfolio_body ::
  "world \<Rightarrow> AgentState \<Rightarrow> PortfolioData \<Rightarrow> py_error + json AnalysisResult list" where
  "analyze_portfolio_body w state portfolio =
    (let requested = (case uc_symbols (user_context state) of None \<Rightarrow> JArr [] | Some v \<Rightarrow> v);
         symbols_to_analyze =
           (if \<not> py_truthy requested
            then Inr (map (\<lambda>holding. JStr (h_symbol holding)) (holdings portfolio))
            else py_iter requested)
     in case symbols_to_analyze of
          Inl e \<Rightarrow> Inl e
        | Inr symbols \<Rightarrow>
            Inr (map (\<lambda>symbol.
                   analyze_symbol (w_fmt1 w) (w_get_market_data w) (w_get_stock_news w) symbol
                     (find (\<lambda>h. JStr (h_symbol h) = symbol) (holdings portfolio)))
                 symbols))"

definition analyze_portfolio :: "world \<Rightarrow> AgentState \<Rightarrow> AgentState" where
  "analyze_portfolio w state =
    (case portfolio_data state of
       None \<Rightarrow> state
     | Some portfolio \<Rightarrow>
         (case analyze_portfolio_body w state portfolio of
            Inl e \<Rightarrow> state\<lparr>current_analysis := None\<rparr>
          | Inr analyses \<Rightarrow>
              if analyses \<noteq> [] then
                state\<lparr>current_analysis := Some (hd analyses),
                      user_context := (user_context state)\<lparr>uc_all_analyses := Some analyses\<rparr>\<rparr>
              else state))"

text \<open>
  \<open>_generate_response\<close>. Building the context raises before the model is called when
  the list of messages is empty, and when a holding of the snapshot has no
  \<open>gain_loss_percent\<close>: the key is present with the value \<open>None\<close>, which can be
  neither compared by \<open>sorted\<close> nor formatted with \<open>:.1f\<close>.
\<close>

definition context_error :: "AgentState \<Rightarrow> py_error option" where
  "context_error state =
    (if messages state = [] then Some IndexError
     else (case portfolio_data state of
             None \<Rightarrow> None
           | Some portfolio \<Rightarrow>
               if list_ex (\<lambda>h. h_gain_loss_percent h = None) (holdings portfolio)
               then Some TypeError else None))"

definition error_response :: string where
  "error_response = ''Sorry, I encountered an error processing your request. Please try again.''"

definition generate_response :: "world \<Rightarrow> AgentState \<Rightarrow> AgentState" where
  "generate_response w state =
    (case (case context_error state of
             Some e \<Rightarrow> Inl e
           | None \<Rightarrow> (case w_llm_respond w state of None \<Rightarrow> Inl OSError | Some text \<Rightarrow> Inr text)) of
       Inr text \<Rightarrow>
         state\<lparr>messages := messages state @
           [\<lparr>m_role = ''assistant'', m_content = text, m_timestamp = w_now w\<rparr>]\<rparr>
     | Inl e \<Rightarrow>
         state\<lparr>messages := messages state @
           [\<lparr>m_role = ''assistant'', m_content = error_response, m_timestamp = w_now w\<rparr>]\<rparr>)"

text \<open>
  The compiled graph: \<open>process_message\<close>, the conditional edge on the result of
  \<open>_should_fetch_portfolio\<close>, and the fixed edges to \<open>generate_response\<close>.
\<close>

definition run_graph :: "world \<Rightarrow> AgentState \<Rightarrow> py_error + AgentState" where
  "run_graph w state =
    (case process_message w state of
       Inl e \<Rightarrow> Inl e
     | Inr s1 \<Rightarrow>
         (let route = should_fetch_portfolio s1
          in if route = ''fetch_portfolio''
               then Inr (generate_response w (analyze_portfolio w (fetch_portfolio w s1)))
             else if route = ''analyze_portfolio''
               then Inr (generate_response w (analyze_portfolio w s1))
             else Inr (generate_response w s1)))"


section \<open>The specification's wording of the rules\<close>

text \<open>
  The three rules of the recommendation engine as the specification words them, each a
  step on the triple of action, confidence and reasoning fragments, to be compared
  with \<open>generate_recommendation\<close>.
\<close>

type_synonym verdict = "ActionType \<times> real \<times> string list"

definition base_rule :: "(pyfloat \<Rightarrow> string) \<Rightarrow> real \<Rightarrow> verdict" where
  "base_rule fmt change_percent =
    (if change_percent > 5 then (BUY, 0.7, [''Price is up '' @ fmt (Fin change_percent) @ ''%''])
     else if change_percent < - 5 then
       (SELL, 0.7, [''Price is down '' @ fmt (Fin \<bar>change_percent\<bar>) @ ''%''])
     else (HOLD, 0.5, [''Price is relatively stable'']))"

fun sentiment_rule :: "SentimentIndicator \<Rightarrow> verdict \<Rightarrow> verdict" where
  "sentiment_rule POSITIVE (BUY, c, r) = (BUY, min (c + 0.2) 1.0, r @ [''Positive news sentiment''])"
| "sentiment_rule POSITIVE (SELL, c, r) = (HOLD, max (c - 0.2) 0.1, r @ [''Positive news sentiment''])"
| "sentiment_rule POSITIVE (a, c, r) = (a, c, r @ [''Positive news sentiment''])"
| "sentiment_rule NEGATIVE (SELL, c, r) = (SELL, min (c + 0.2) 1.0, r @ [''Negative news sentiment''])"
| "sentiment_rule NEGATIVE (BUY, c, r) = (HOLD, max (c - 0.2) 0.1, r @ [''Negative news sentiment''])"
| "sentiment_rule NEGATIVE (a, c, r) = (a, c, r @ [''Negative news sentiment''])"
| "sentiment_rule NEUTRAL v = v"

fun holding_rule :: "(pyfloat \<Rightarrow> string) \<Rightarrow> PortfolioHolding option \<Rightarrow> verdict \<Rightarrow> verdict" where
  "holding_rule fmt None v = v"
| "holding_rule fmt (Some h) (a, c, r) =
    (case h_gain_loss_percent h of
       None \<Rightarrow> (a, c, r)
     | Some g \<Rightarrow>
        if pf_gt g 20 then
          (if a = BUY then HOLD else a, if a = BUY then max (c - 0.1) 0.3 else c,
           r @ [''You have '' @ fmt g @ ''% gains''])
        else if pf_lt g (- 20) then (a, c, r @ [''You have '' @ fmt (pf_abs g) @ ''% losses''])
        else (a, c, r))"

text \<open>
  A majority vote over the labels of the articles as the specification words it: the
  label with strictly more votes than each of the other two wins, and a tie gives
  \<open>NEUTRAL\<close>.
\<close>

definition votes :: "SentimentIndicator \<Rightarrow> NewsItem list \<Rightarrow> nat" where
  "votes label news_items = count_list (map n_sentiment news_items) label"

definition majority_vote :: "NewsItem list \<Rightarrow> SentimentIndicator" where
  "majority_vote news_items =
    (if votes POSITIVE news_items > votes NEUTRAL news_items
        \<and> votes POSITIVE news_items > votes NEGATIVE news_items then POSITIVE
     else if votes NEGATIVE news_items > votes NEUTRAL news_items
        \<and> votes NEGATIVE news_items > votes POSITIVE news_items then NEGATIVE
     else NEUTRAL)"

text \<open>An article with a given label, for concrete inputs.\<close>

definition article :: "SentimentIndicator \<Rightarrow> NewsItem" where
  "article label =
    \<lparr>n_title = ''t'', n_content = ''c'', n_source = ''s'', n_url = ''u'', n_published_at = 0,
     n_sentiment = label, n_relevance_score = 0\<rparr>"

section \<open>Concrete inputs\<close>

text \<open>A quote, a holding as the ledger reader builds it, and small snapshots.\<close>

definition ex_quote :: MarketData where
  "ex_quote =
    \<lparr>md_symbol = ''AAPL'', md_price = 200, md_change = 10, md_change_percent = 8,
     md_volume = 1000, md_market_cap = None, md_pe_ratio = None, md_day_high = None,
     md_day_low = None\<rparr>"

definition ledger_holding :: "string \<Rightarrow> real \<Rightarrow> real \<Rightarrow> PortfolioHolding" where
  "ledger_holding symbol q c =
    \<lparr>h_symbol = symbol, h_quantity = q, h_avg_cost = c, h_current_price = None,
     h_value = None, h_gain_loss = None, h_gain_loss_percent = None\<rparr>"

definition ex_portfolio :: PortfolioData where
  "ex_portfolio =
    \<lparr>holdings = [ledger_holding ''AAPL'' 2 100, ledger_holding ''MSFT'' 1 50],
     total_value = 0, total_gain_loss = 0, total_gain_loss_percent = 0, last_updated = 0\<rparr>"

definition ex_enriched :: PortfolioData where
  "ex_enriched =
    \<lparr>holdings =
       [\<lparr>h_symbol = ''AAPL'', h_quantity = 2, h_avg_cost = 100, h_current_price = Some 200,
         h_value = Some 400, h_gain_loss = Some 200, h_gain_loss_percent = Some (Fin 100)\<rparr>,
        ledger_holding ''MSFT'' 1 50],
     total_value = 400, total_gain_loss = 200, total_gain_loss_percent = 100,
     last_updated = 5\<rparr>"

definition zero_cost_portfolio :: PortfolioData where
  "zero_cost_portfolio =
    \<lparr>holdings = [ledger_holding ''AAPL'' 10 0],
     total_value = 0, total_gain_loss = 0, total_gain_loss_percent = 0, last_updated = 0\<rparr>"

definition zero_cost_enriched :: PortfolioData where
  "zero_cost_enriched =
    \<lparr>holdings =
       [\<lparr>h_symbol = ''AAPL'', h_quantity = 10, h_avg_cost = 0, h_current_price = Some 200,
         h_value = Some 2000, h_gain_loss = Some 2000, h_gain_loss_percent = Some PInf\<rparr>],
     total_value = 2000, total_gain_loss = 2000, total_gain_loss_percent = 0,
     last_updated = 5\<rparr>"

text \<open>A holding has a quote when its symbol is a key of the batch result.\<close>

definition quoted :: "(string \<rightharpoonup> MarketData) \<Rightarrow> PortfolioHolding \<Rightarrow> bool" where
  "quoted market_data_dict holding = (market_data_dict (h_symbol holding) \<noteq> None)"

text \<open>
  Two rows of a ledger with the header \<open>Symbol,Quantity,Average Cost\<close>: the line
  \<open>aapl ,10,150\<close> and the short line \<open>MSFT\<close>, whose two other cells are
  missing. The parser \<open>ex_float\<close> agrees with \<open>float\<close> on the two numbers used.
\<close>

definition ex_float :: "string \<Rightarrow> real option" where
  "ex_float s = (if s = ''10'' then Some 10 else if s = ''150'' then Some 150 else None)"

definition good_row :: csv_row where
  "good_row = [''Symbol'' \<mapsto> Some ''aapl '', ''Quantity'' \<mapsto> Some ''10'',
               ''Average Cost'' \<mapsto> Some ''150'']"

definition short_row :: csv_row where
  "short_row = [''Symbol'' \<mapsto> Some ''MSFT'', ''Quantity'' \<mapsto> None,
                ''Average Cost'' \<mapsto> None]"

text \<open>
  The value parsed from the reply of the classification call, if the call returns and
  the reply parses: what the specification calls the structured record found in the
  reply.
\<close>

definition oracle_record :: "world \<Rightarrow> string \<Rightarrow> json option" where
  "oracle_record w latest_message =
    (case w_llm_classify w latest_message of
       None \<Rightarrow> None
     | Some response \<Rightarrow>
         (case re_search_braces (py_strip response) of
            Some json_str \<Rightarrow> w_json_loads w json_str
          | None \<Rightarrow> w_json_loads w (py_strip response)))"

text \<open>
  A reply that leaves out the intent, a world in which the model gives this reply and
  does not answer the synthesis call, and a session with one user message.
\<close>

definition partial_reply :: string where
  \<open>partial_reply = ''{"symbols": ["AAPL"], "requires_portfolio": true}''\<close>

definition partial_record :: "(string \<times> json) list" where
  "partial_record = [(''symbols'', JArr [JStr ''AAPL'']), (''requires_portfolio'', JBool True)]"

definition ex_world :: world where
  "ex_world =
    \<lparr>w_llm_classify = (\<lambda>m. Some partial_reply),
     w_llm_respond = (\<lambda>s. None),
     w_json_loads = (\<lambda>s. if s = partial_reply then Some (JObj partial_record) else None),
     w_ledger = Rows [good_row, short_row],
     w_to_float = ex_float,
     w_get_market_data = (\<lambda>s. None),
     w_get_stock_news = (\<lambda>s. []),
     w_fmt1 = (\<lambda>x. ''0.0''),
     w_now = 5\<rparr>"

definition ex_session :: AgentState where
  "ex_session =
    \<lparr>messages = [\<lparr>m_role = ''user'', m_content = ''How is AAPL?'', m_timestamp = 5\<rparr>],
     portfolio_data = None, current_analysis = None,
     user_context = \<lparr>uc_intent = None, uc_symbols = None, uc_requires_portfolio = None,
                      uc_all_analyses = None\<rparr>,
     last_action = None\<rparr>"

definition ex_classified :: AgentState where
  "ex_classified =
    ex_session\<lparr>user_context :=
      \<lparr>uc_intent = Some (JStr ''general_question''),
       uc_symbols = Some (JArr [JStr ''AAPL'']),
       uc_requires_portfolio = Some (JBool True),
       uc_all_analyses = None\<rparr>\<rparr>"


definition zero_cost_world :: world where
  "zero_cost_world =
    ex_world\<lparr>w_ledger := Rows [[''Symbol'' \<mapsto> Some ''AAPL'', ''Quantity'' \<mapsto> Some ''10'',
                               ''Average Cost'' \<mapsto> Some ''0'']],
             w_to_float := (\<lambda>s. if s = ''0'' then Some 0 else ex_float s),
             w_get_market_data := (\<lambda>s. Some ex_quote)\<rparr>"

section \<open>Properties of the recommendation engine and of the relevance score\<close>

text \<open>
  Claim C1. For every quote, sentiment, news list and optional holding,
  \<open>generate_recommendation\<close> is the base rule on \<open>change_percent\<close>, then the
  sentiment rule, then the holding rule, in this order, and the reasoning is the
  fragments joined by a full stop and a space, with a full stop at the end.
\<close>

theorem rule_cascade_order:
  "generate_recommendation fmt market_data sentiment news holding =
    (case holding_rule fmt holding
            (sentiment_rule sentiment (base_rule fmt (md_change_percent market_data))) of
       (action, confidence, parts) \<Rightarrow> (action, confidence, py_join ''. '' parts @ ''.''))"
  by (cases sentiment; cases holding)
     (simp_all add: generate_recommendation_def base_rule_def Let_def split: option.split)

text \<open>
  Claim C4. For every input the confidence that \<open>generate_recommendation\<close> returns
  lies between 0.1 and 1.0.
\<close>

theorem confidence_in_range:
  "0.1 \<le> fst (snd (generate_recommendation fmt market_data sentiment news holding))
   \<and> fst (snd (generate_recommendation fmt market_data sentiment news holding)) \<le> 1.0"
  by (auto simp: generate_recommendation_def Let_def split: option.splits)

lemma count_as_sum: "sum_list (map (\<lambda>x. 1::nat) (filter P xs)) = length (filter P xs)"
  by (induction xs) auto

lemma count_list_filter: "count_list (map f xs) y = length (filter (\<lambda>x. f x = y) xs)"
  by (induction xs) auto

lemma positive_count_votes: "positive_count news_items = votes POSITIVE news_items"
  unfolding positive_count_def votes_def count_as_sum count_list_filter ..

lemma negative_count_votes: "negative_count news_items = votes NEGATIVE news_items"
  unfolding negative_count_def votes_def count_as_sum count_list_filter ..

lemma votes_Nil: "votes label [] = 0"
  by (simp add: votes_def)

text \<open>
  Claim C5, as amended. The aggregate sentiment compares the number of articles
  labelled \<open>POSITIVE\<close> with the number labelled \<open>NEGATIVE\<close>: the larger count
  wins, equal counts (and so the empty list) give \<open>NEUTRAL\<close>, and the articles
  labelled \<open>NEUTRAL\<close> have no vote.
\<close>

theorem overall_sentiment_by_difference:
  "overall_sentiment news_items =
    (if votes POSITIVE news_items > votes NEGATIVE news_items then POSITIVE
     else if votes NEGATIVE news_items > votes POSITIVE news_items then NEGATIVE
     else NEUTRAL)"
proof (cases "news_items = []")
  case True
  then show ?thesis by (simp add: overall_sentiment_def votes_Nil)
next
  case False
  then show ?thesis
    by (simp add: overall_sentiment_def positive_count_votes negative_count_votes)
qed

text \<open>
  Claim C5 as stated fails: with one positive and two neutral articles the majority of
  the labels is \<open>NEUTRAL\<close>, and the aggregate is \<open>POSITIVE\<close>.
\<close>

theorem overall_sentiment_not_majority:
  "overall_sentiment [article POSITIVE, article NEUTRAL, article NEUTRAL] = POSITIVE
   \<and> majority_vote [article POSITIVE, article NEUTRAL, article NEUTRAL] = NEUTRAL"
  by (simp add: overall_sentiment_def positive_count_def negative_count_def majority_vote_def
        votes_def article_def)

lemma py_contains_sublist: "py_contains sub s = sublist sub s"
  by (induction s) (simp_all add: sublist_Cons_right)

lemma distinct_keywords: "distinct financial_keywords"
  by (simp add: financial_keywords_def)

lemma aapl_symbol_count: "py_count (py_lower ''AAPL'') (py_lower ''AAPL AAPL stock price'') = 2"
  by code_simp

lemma aapl_keywords:
  "filter (\<lambda>keyword. py_contains keyword (py_lower ''AAPL AAPL stock price'')) financial_keywords
     = [''stock'', ''price'']"
  by code_simp

lemma keyword_count_card:
  "sum_list (map (\<lambda>keyword. 1::nat) (filter (\<lambda>keyword. py_contains keyword t) financial_keywords))
     = card {k \<in> set financial_keywords. sublist k t}"
proof -
  have "{k \<in> set financial_keywords. sublist k t}
          = set (filter (\<lambda>k. py_contains k t) financial_keywords)"
    by (auto simp: py_contains_sublist)
  moreover have "distinct (filter (\<lambda>k. py_contains k t) financial_keywords)"
    using distinct_keywords by (rule distinct_filter)
  ultimately show ?thesis
    by (simp only: count_as_sum distinct_card)
qed

text \<open>
  Claim C6. The relevance is the minimum of 1.0 and 0.6 times the number of
  occurrences of the lower-cased symbol in the lower-cased text plus 0.4 times the
  number of distinct keywords that occur in the lower-cased text; the text
  \<open>AAPL AAPL stock price\<close> with the symbol \<open>AAPL\<close> scores 1.0.
\<close>

theorem relevance_formula:
  "calculate_relevance text symbol =
     min 1.0 (0.6 * real (py_count (py_lower symbol) (py_lower text))
              + 0.4 * real (card {k \<in> set financial_keywords. sublist k (py_lower text)}))
   \<and> calculate_relevance ''AAPL AAPL stock price'' ''AAPL'' = 1.0"
proof
  show "calculate_relevance text symbol =
     min 1.0 (0.6 * real (py_count (py_lower symbol) (py_lower text))
              + 0.4 * real (card {k \<in> set financial_keywords. sublist k (py_lower text)}))"
    unfolding calculate_relevance_def Let_def keyword_count_card
    by (simp only: min.commute mult.commute)
  show "calculate_relevance ''AAPL AAPL stock price'' ''AAPL'' = 1.0"
    unfolding calculate_relevance_def Let_def aapl_symbol_count aapl_keywords
    by simp
qed

text \<open>
  Claim C10. When the market-data gateway has no quote for the symbol,
  \<open>analyze_symbol\<close> returns the fixed result with \<open>WATCH\<close>, confidence 0.0,
  neutral sentiment, price 0.0, no news, no indicators and the reasoning
  \<open>Unable to fetch market data\<close>; and a result with \<open>WATCH\<close> or with a confidence
  below 0.1 only comes from there.
\<close>

theorem watch_only_without_quote:
  "(quote_of symbol = None \<longrightarrow>
      analyze_symbol fmt quote_of news_of symbol holding =
        \<lparr>ar_symbol = symbol, ar_current_price = 0.0, ar_sentiment = NEUTRAL,
         ar_news_summary = [], ar_technical_indicators = [],
         ar_recommendation = WATCH, ar_confidence = 0.0,
         ar_reasoning = ''Unable to fetch market data''\<rparr>)
   \<and> (ar_recommendation (analyze_symbol fmt quote_of news_of symbol holding) = WATCH
        \<or> ar_confidence (analyze_symbol fmt quote_of news_of symbol holding) < 0.1
      \<longrightarrow> quote_of symbol = None)"
  by (auto simp: analyze_symbol_def generate_recommendation_def Let_def split: option.splits)

theorem watch_only_without_quote_witness:
  "(\<lambda>s::string. None :: MarketData option) ''XYZ'' = None
   \<and> ar_recommendation (analyze_symbol (\<lambda>x. ''0.0'') (\<lambda>s::string. None) (\<lambda>s. []) ''XYZ'' None) = WATCH
   \<and> ar_confidence (analyze_symbol (\<lambda>x. ''0.0'') (\<lambda>s::string. None) (\<lambda>s. []) ''XYZ'' None) = 0"
  using watch_only_without_quote
    [where quote_of = "\<lambda>s::string. None" and symbol = "''XYZ''" and fmt = "\<lambda>x. ''0.0''"
       and news_of = "\<lambda>s. []" and holding = None]
  by (simp add: analyze_symbol_def)

section \<open>Properties of the portfolio enricher\<close>

lemma enrich_holding_symbol: "h_symbol (enrich_holding market_data holding) = h_symbol holding"
  by (simp add: enrich_holding_def)

lemma enrich_loop_totals:
  "enrich_loop d hs tv tgl = (hs', tv', tgl') \<Longrightarrow>
     length hs' = length hs
     \<and> map h_symbol hs' = map h_symbol hs
     \<and> tv' = tv + sum_list (map (\<lambda>h. the (h_value h)) (filter (quoted d) hs'))
     \<and> tgl' = tgl + sum_list (map (\<lambda>h. the (h_gain_loss h)) (filter (quoted d) hs'))
     \<and> (\<forall>i < length hs. \<not> quoted d (hs ! i) \<longrightarrow> hs' ! i = hs ! i)
     \<and> (\<forall>i < length hs. \<forall>md. d (h_symbol (hs ! i)) = Some md \<longrightarrow>
            hs' ! i = enrich_holding md (hs ! i))"
proof (induction hs arbitrary: tv tgl hs' tv' tgl')
  case Nil
  then show ?case by simp
next
  case (Cons h hs)
  show ?case
  proof (cases "d (h_symbol h)")
    case None
    with Cons.prems obtain rest' where
      r: "enrich_loop d hs tv tgl = (rest', tv', tgl')" and hs': "hs' = h # rest'"
      by (auto split: prod.splits)
    from Cons.IH [OF r] hs' None show ?thesis
      by (auto simp: quoted_def nth_Cons split: nat.splits)
  next
    case (Some md)
    define h' where "h' = enrich_holding md h"
    with Some Cons.prems obtain rest' where
      r: "enrich_loop d hs (tv + the (h_value h')) (tgl + the (h_gain_loss h'))
            = (rest', tv', tgl')"
      and hs': "hs' = h' # rest'"
      by (auto simp: Let_def split: prod.splits)
    have s: "h_symbol h' = h_symbol h"
      by (simp add: h'_def enrich_holding_symbol)
    with Some have q: "quoted d h'" "quoted d h"
      by (simp_all add: quoted_def)
    from Cons.IH [OF r] hs' q s Some h'_def show ?thesis
      by (auto simp: nth_Cons split: nat.splits)
  qed
qed

text \<open>
  Claim C3. For every snapshot and every batch result, after the enrichment the total
  value is the sum of the values of the holdings that have a quote and the total gain or
  loss the sum of their gains or losses; a holding without a quote is unchanged, so its
  derived fields stay absent and it adds nothing to the sums; a holding with a quote is
  the result of \<open>enrich_holding\<close>; and the total percentage is the total gain or loss
  divided by the difference of total value and total gain or loss, times 100, and 0
  when that difference is zero.
\<close>

theorem enrichment_totals:
  assumes "update_portfolio_with_quotes d stamp portfolio = portfolio'"
  shows "total_value portfolio'
           = sum_list (map (\<lambda>h. the (h_value h)) (filter (quoted d) (holdings portfolio')))
       \<and> total_gain_loss portfolio'
           = sum_list (map (\<lambda>h. the (h_gain_loss h)) (filter (quoted d) (holdings portfolio')))
       \<and> length (holdings portfolio') = length (holdings portfolio)
       \<and> map h_symbol (holdings portfolio') = map h_symbol (holdings portfolio)
       \<and> (\<forall>i < length (holdings portfolio). \<not> quoted d (holdings portfolio ! i) \<longrightarrow>
             holdings portfolio' ! i = holdings portfolio ! i)
       \<and> (\<forall>i < length (holdings portfolio). \<forall>md.
             d (h_symbol (holdings portfolio ! i)) = Some md \<longrightarrow>
             holdings portfolio' ! i = enrich_holding md (holdings portfolio ! i))
       \<and> total_gain_loss_percent portfolio'
           = (if total_value portfolio' = total_gain_loss portfolio' then 0
              else total_gain_loss portfolio'
                     / (total_value portfolio' - total_gain_loss portfolio') * 100)"
proof -
  obtain hs' tv tgl where
    l: "enrich_loop d (holdings portfolio) 0 0 = (hs', tv, tgl)"
    by (cases "enrich_loop d (holdings portfolio) 0 0") auto
  with assms have
    p: "portfolio' = portfolio\<lparr>holdings := hs', total_value := tv, total_gain_loss := tgl,
          total_gain_loss_percent := (if tv \<noteq> tgl then (tgl / (tv - tgl)) * 100 else 0),
          last_updated := stamp\<rparr>"
    by (simp add: update_portfolio_with_quotes_def)
  from enrich_loop_totals [OF l] p show ?thesis by simp
qed

lemma ex_enrichment:
  "update_portfolio_with_quotes [''AAPL'' \<mapsto> ex_quote] 5 ex_portfolio = ex_enriched"
  by (simp add: update_portfolio_with_quotes_def ex_portfolio_def ex_enriched_def
        ledger_holding_def ex_quote_def enrich_holding_def np_truediv_def)

lemma zero_cost_enrichment:
  "update_portfolio_with_quotes [''AAPL'' \<mapsto> ex_quote] 5 zero_cost_portfolio
     = zero_cost_enriched"
  by (simp add: update_portfolio_with_quotes_def zero_cost_portfolio_def
        zero_cost_enriched_def ledger_holding_def ex_quote_def enrich_holding_def
        np_truediv_def)

theorem enrichment_totals_witness:
  "update_portfolio_with_quotes [''AAPL'' \<mapsto> ex_quote] 5 ex_portfolio = ex_enriched
   \<and> total_value ex_enriched = 400 \<and> total_gain_loss ex_enriched = 200
   \<and> total_gain_loss_percent ex_enriched = 100
   \<and> holdings ex_enriched ! 1 = holdings ex_portfolio ! 1
   \<and> update_portfolio_with_quotes [''AAPL'' \<mapsto> ex_quote] 5 zero_cost_portfolio
       = zero_cost_enriched
   \<and> total_value zero_cost_enriched = 2000 \<and> total_gain_loss zero_cost_enriched = 2000
   \<and> total_gain_loss_percent zero_cost_enriched = 0"
proof -
  have v: "total_value ex_enriched
      = sum_list (map (\<lambda>h. the (h_value h))
          (filter (quoted [''AAPL'' \<mapsto> ex_quote]) (holdings ex_enriched)))"
    by (rule enrichment_totals [OF ex_enrichment, THEN conjunct1])
  have z: "total_value zero_cost_enriched
      = sum_list (map (\<lambda>h. the (h_value h))
          (filter (quoted [''AAPL'' \<mapsto> ex_quote]) (holdings zero_cost_enriched)))"
    by (rule enrichment_totals [OF zero_cost_enrichment, THEN conjunct1])
  have "sum_list (map (\<lambda>h. the (h_value h))
          (filter (quoted [''AAPL'' \<mapsto> ex_quote]) (holdings ex_enriched))) = 400"
    by (simp add: ex_enriched_def quoted_def ledger_holding_def)
  with v have v': "total_value ex_enriched = 400" by simp
  have "sum_list (map (\<lambda>h. the (h_value h))
          (filter (quoted [''AAPL'' \<mapsto> ex_quote]) (holdings zero_cost_enriched))) = 2000"
    by (simp add: zero_cost_enriched_def quoted_def)
  with z have z': "total_value zero_cost_enriched = 2000" by simp
  show ?thesis
    using v' z' ex_enrichment zero_cost_enrichment
    by (simp add: ex_enriched_def ex_portfolio_def zero_cost_enriched_def)
qed

lemma fetch_portfolio_body_returns: "\<exists>portfolio. fetch_portfolio_body w = Inr portfolio"
  by (simp add: fetch_portfolio_body_def get_portfolio_data_def split: sum.split)

text \<open>
  Claim C2. For a holding whose symbol has a quote at price \<open>P\<close> the enrichment sets
  the value to quantity times \<open>P\<close> and the gain or loss to \<open>P\<close> minus the average
  cost, times the quantity; for a non-zero average cost the percentage is \<open>P\<close> minus
  the average cost, divided by the average cost, times 100. For an average cost of zero
  no exception is raised: the percentage is an infinity with the sign of \<open>P\<close>, or
  NaN when \<open>P\<close> is zero too, and the body of the portfolio step returns a snapshot
  whatever the ledger and the quotes are.
\<close>

theorem enrichment_formulas:
  "h_current_price (enrich_holding market_data holding) = Some (md_price market_data)
   \<and> h_value (enrich_holding market_data holding)
       = Some (h_quantity holding * md_price market_data)
   \<and> h_gain_loss (enrich_holding market_data holding)
       = Some ((md_price market_data - h_avg_cost holding) * h_quantity holding)
   \<and> (h_avg_cost holding \<noteq> 0 \<longrightarrow>
        h_gain_loss_percent (enrich_holding market_data holding)
          = Some (Fin ((md_price market_data - h_avg_cost holding) / h_avg_cost holding * 100)))
   \<and> (h_avg_cost holding = 0 \<longrightarrow>
        h_gain_loss_percent (enrich_holding market_data holding)
          = Some (if md_price market_data > 0 then PInf
                  else if md_price market_data < 0 then NInf else NaN))
   \<and> (\<exists>portfolio. fetch_portfolio_body w = Inr portfolio)"
  using fetch_portfolio_body_returns [of w]
  by (simp add: enrich_holding_def np_truediv_def)

section \<open>Properties of the ledger reader\<close>

lemma ledger_never_raises: "\<exists>portfolio. get_portfolio_data to_float stamp file = Inr portfolio"
  by (simp add: get_portfolio_data_def split: sum.split)

lemma missing_file_empty: "get_portfolio_data to_float stamp Missing = Inr (empty_snapshot stamp)"
  by (simp add: get_portfolio_data_def get_portfolio_data_body_def)

lemma py_strip_Nil: "py_strip [] = []"
  by (simp add: py_strip_def)

lemma accepted_row_shape:
  assumes "parse_row to_float row = Inr (Some holding)"
  shows "\<exists>s. row ''Symbol'' = Some (Some s) \<and> py_strip s \<noteq> []
           \<and> h_symbol holding = py_strip (py_upper s)"
    and "h_current_price holding = None \<and> h_value holding = None
           \<and> h_gain_loss holding = None \<and> h_gain_loss_percent holding = None"
  using assms
  by (auto simp: parse_row_def row_item_def py_strip_Nil split: option.splits if_splits sum.splits)

lemma blank_symbol_skipped:
  assumes "row ''Symbol'' = Some (Some s)" and "py_strip s = []"
  shows "read_rows to_float (row # rows) acc = read_rows to_float rows acc"
  using assms by (simp add: parse_row_def)

lemma unparsable_number_skipped:
  assumes "row ''Symbol'' = Some (Some s)" and "py_strip s \<noteq> []"
    and "row ''Quantity'' = Some (Some q)" and "row ''Average Cost'' = Some (Some c)"
    and "to_float q = None \<or> to_float c = None"
  shows "read_rows to_float (row # rows) acc = read_rows to_float rows acc"
  using assms
  by (auto simp: parse_row_def row_item_def py_float_def split: option.splits)

lemma strip_examples:
  "py_strip ''aapl '' \<noteq> []" "py_strip (py_upper ''aapl '') = ''AAPL''" "py_strip ''MSFT'' \<noteq> []"
  by code_simp+

lemma parse_good_row:
  "parse_row ex_float good_row = Inr (Some (ledger_holding ''AAPL'' 10 150))"
  by (simp add: parse_row_def good_row_def row_item_def py_float_def ex_float_def
        strip_examples ledger_holding_def)

lemma parse_short_row: "parse_row to_float short_row = Inl TypeError"
  by (simp add: parse_row_def short_row_def row_item_def py_float_def strip_examples)

text \<open>
  Claim C8. A row whose number cells are missing makes \<open>float\<close> raise
  \<open>TypeError\<close>, which the handler of the row does not catch: the outer handler then
  returns the empty snapshot, and the holding of the row read before is lost. Without
  the short row the same ledger gives the holding.
\<close>

theorem short_row_empties_ledger:
  "get_portfolio_data ex_float 5 (Rows [good_row, short_row]) = Inr (empty_snapshot 5)
   \<and> get_portfolio_data ex_float 5 (Rows [good_row])
       = Inr \<lparr>holdings = [ledger_holding ''AAPL'' 10 150], total_value = 0,
              total_gain_loss = 0, total_gain_loss_percent = 0, last_updated = 5\<rparr>"
  by (simp add: get_portfolio_data_def get_portfolio_data_body_def parse_good_row
        parse_short_row)

section \<open>Properties of the classifier and of the routing\<close>

lemma partial_reply_match: "re_search_braces (py_strip partial_reply) = Some partial_reply"
  unfolding partial_reply_def by code_simp

lemma ex_classify: "classify ex_world ''How is AAPL?'' = Inr partial_record"
  by (simp add: classify_def ex_world_def partial_reply_match)

lemma ex_process_message: "process_message ex_world ex_session = Inr ex_classified"
  by (simp add: process_message_def ex_session_def ex_classified_def ex_classify
        partial_record_def dict_get_def)

text \<open>
  Claim C7 as stated fails: a parsed record without the intent does not give the
  fallback classification; the symbols and the flag of the record are kept, and the
  turn goes to the portfolio step.
\<close>

theorem absent_field_not_fallback:
  "map_of partial_record ''intent'' = None
   \<and> process_message ex_world ex_session = Inr ex_classified
   \<and> uc_symbols (user_context ex_classified) = Some (JArr [JStr ''AAPL''])
   \<and> uc_requires_portfolio (user_context ex_classified) = Some (JBool True)
   \<and> should_fetch_portfolio ex_classified = ''fetch_portfolio''"
  using ex_process_message
  by (simp add: ex_classified_def partial_record_def should_fetch_portfolio_def)

lemma classify_oracle_record:
  "classify w m = (case oracle_record w m of
                     Some (JObj kv) \<Rightarrow> Inr kv
                   | Some _ \<Rightarrow> Inl AttributeError
                   | None \<Rightarrow> (if w_llm_classify w m = None then Inl OSError else Inl ValueError))"
  by (auto simp: classify_def oracle_record_def Let_def split: option.splits json.splits)

lemma routing_rule:
  "should_fetch_portfolio st =
    (if (\<exists>v. uc_requires_portfolio (user_context st) = Some v \<and> py_truthy v)
        \<or> uc_intent (user_context st) = Some (JStr ''portfolio_query'')
        \<or> uc_intent (user_context st) = Some (JStr ''stock_analysis'')
     then ''fetch_portfolio'' else ''generate_response'')"
  by (auto simp: should_fetch_portfolio_def split: option.splits)

lemma fallback_routes_to_respond:
  "should_fetch_portfolio (st\<lparr>user_context := fallback_context uc\<rparr>) = ''generate_response''"
  by (simp add: should_fetch_portfolio_def fallback_context_def)

lemma run_graph_route:
  assumes "process_message w state = Inr s1"
  shows "run_graph w state =
          (if (\<exists>v. uc_requires_portfolio (user_context s1) = Some v \<and> py_truthy v)
              \<or> uc_intent (user_context s1) = Some (JStr ''portfolio_query'')
              \<or> uc_intent (user_context s1) = Some (JStr ''stock_analysis'')
           then Inr (generate_response w (analyze_portfolio w (fetch_portfolio w s1)))
           else Inr (generate_response w s1))"
proof (cases "(\<exists>v. uc_requires_portfolio (user_context s1) = Some v \<and> py_truthy v)
              \<or> uc_intent (user_context s1) = Some (JStr ''portfolio_query'')
              \<or> uc_intent (user_context s1) = Some (JStr ''stock_analysis'')")
  case True
  then have "should_fetch_portfolio s1 = ''fetch_portfolio''"
    by (subst routing_rule) simp
  with assms have "run_graph w state
      = Inr (generate_response w (analyze_portfolio w (fetch_portfolio w s1)))"
    by (simp add: run_graph_def)
  with True show ?thesis by auto
next
  case False
  then have "should_fetch_portfolio s1 = ''generate_response''"
    by (subst routing_rule) simp
  with assms have "run_graph w state = Inr (generate_response w s1)"
    by (simp add: run_graph_def)
  with False show ?thesis by auto
qed

text \<open>
  Claim C7, as amended. When the call fails, or the reply does not parse, or it
  parses to a value that is not a record, the classification is exactly
  \<open>general_question\<close>, no symbols and \<open>requires_portfolio\<close> false, and the turn goes
  straight to the response step. When a record is parsed, each of its three fields
  that is absent takes its own default and the fields present are kept. The turn goes
  through the portfolio and analysis steps if and only if \<open>requires_portfolio\<close>
  is true as a condition or the intent is \<open>portfolio_query\<close> or
  \<open>stock_analysis\<close>, and otherwise straight to the response step.
\<close>

theorem classifier_defaults_and_routing:
  assumes "messages state \<noteq> []"
  shows "\<exists>s1. process_message w state = Inr s1
     \<and> ((\<forall>kv. oracle_record w (m_content (last (messages state))) \<noteq> Some (JObj kv)) \<longrightarrow>
           s1 = state\<lparr>user_context := fallback_context (user_context state)\<rparr>
           \<and> uc_intent (user_context s1) = Some (JStr ''general_question'')
           \<and> uc_symbols (user_context s1) = Some (JArr [])
           \<and> uc_requires_portfolio (user_context s1) = Some (JBool False)
           \<and> run_graph w state = Inr (generate_response w s1))
     \<and> (\<forall>kv. oracle_record w (m_content (last (messages state))) = Some (JObj kv) \<longrightarrow>
           uc_intent (user_context s1)
             = Some (case map_of kv ''intent'' of None \<Rightarrow> JStr ''general_question'' | Some v \<Rightarrow> v)
           \<and> uc_symbols (user_context s1)
             = Some (case map_of kv ''symbols'' of None \<Rightarrow> JArr [] | Some v \<Rightarrow> v)
           \<and> uc_requires_portfolio (user_context s1)
             = Some (case map_of kv ''requires_portfolio'' of None \<Rightarrow> JBool False | Some v \<Rightarrow> v))
     \<and> run_graph w state =
          (if (\<exists>v. uc_requires_portfolio (user_context s1) = Some v \<and> py_truthy v)
              \<or> uc_intent (user_context s1) = Some (JStr ''portfolio_query'')
              \<or> uc_intent (user_context s1) = Some (JStr ''stock_analysis'')
           then Inr (generate_response w (analyze_portfolio w (fetch_portfolio w s1)))
           else Inr (generate_response w s1))"
proof (cases "classify w (m_content (last (messages state)))")
  case (Inl e)
  let ?s1 = "state\<lparr>user_context := fallback_context (user_context state)\<rparr>"
  from Inl assms have p: "process_message w state = Inr ?s1"
    by (simp add: process_message_def)
  from Inl have n: "\<forall>kv. oracle_record w (m_content (last (messages state))) \<noteq> Some (JObj kv)"
    by (auto simp: classify_oracle_record split: option.splits json.splits if_splits)
  have r: "should_fetch_portfolio ?s1 = ''generate_response''"
    by (rule fallback_routes_to_respond)
  have g: "run_graph w state = Inr (generate_response w ?s1)"
    by (simp add: run_graph_def p r Let_def)
  have f: "uc_intent (user_context ?s1) = Some (JStr ''general_question'')"
    "uc_symbols (user_context ?s1) = Some (JArr [])"
    "uc_requires_portfolio (user_context ?s1) = Some (JBool False)"
    by (simp_all add: fallback_context_def)
  have g': "run_graph w state =
          (if (\<exists>v. uc_requires_portfolio (user_context ?s1) = Some v \<and> py_truthy v)
              \<or> uc_intent (user_context ?s1) = Some (JStr ''portfolio_query'')
              \<or> uc_intent (user_context ?s1) = Some (JStr ''stock_analysis'')
           then Inr (generate_response w (analyze_portfolio w (fetch_portfolio w ?s1)))
           else Inr (generate_response w ?s1))" by (rule run_graph_route [OF p])
  show ?thesis
  proof (intro exI [of _ ?s1] conjI allI impI)
    show "process_message w state = Inr ?s1" by (rule p)
    show "run_graph w state =
          (if (\<exists>v. uc_requires_portfolio (user_context ?s1) = Some v \<and> py_truthy v)
              \<or> uc_intent (user_context ?s1) = Some (JStr ''portfolio_query'')
              \<or> uc_intent (user_context ?s1) = Some (JStr ''stock_analysis'')
           then Inr (generate_response w (analyze_portfolio w (fetch_portfolio w ?s1)))
           else Inr (generate_response w ?s1))" by (rule g')
  qed (use n g f in simp_all)
next
  case (Inr kv)
  let ?s1 = "state\<lparr>user_context := (user_context state)
                   \<lparr>uc_intent := Some (dict_get kv ''intent'' (JStr ''general_question'')),
                    uc_symbols := Some (dict_get kv ''symbols'' (JArr [])),
                    uc_requires_portfolio :=
                      Some (dict_get kv ''requires_portfolio'' (JBool False))\<rparr>\<rparr>"
  from Inr assms have p: "process_message w state = Inr ?s1"
    by (simp add: process_message_def)
  from Inr have o: "oracle_record w (m_content (last (messages state))) = Some (JObj kv)"
    by (auto simp: classify_oracle_record split: option.splits json.splits if_splits)
  note g = run_graph_route [OF p]
  have f: "uc_intent (user_context ?s1)
             = Some (case map_of kv ''intent'' of None \<Rightarrow> JStr ''general_question'' | Some v \<Rightarrow> v)"
    "uc_symbols (user_context ?s1)
             = Some (case map_of kv ''symbols'' of None \<Rightarrow> JArr [] | Some v \<Rightarrow> v)"
    "uc_requires_portfolio (user_context ?s1)
             = Some (case map_of kv ''requires_portfolio'' of None \<Rightarrow> JBool False | Some v \<Rightarrow> v)"
    by (simp_all add: dict_get_def)
  show ?thesis
  proof (intro exI [of _ ?s1] conjI allI impI)
    show "process_message w state = Inr ?s1" by (rule p)
    show "run_graph w state =
          (if (\<exists>v. uc_requires_portfolio (user_context ?s1) = Some v \<and> py_truthy v)
              \<or> uc_intent (user_context ?s1) = Some (JStr ''portfolio_query'')
              \<or> uc_intent (user_context ?s1) = Some (JStr ''stock_analysis'')
           then Inr (generate_response w (analyze_portfolio w (fetch_portfolio w ?s1)))
           else Inr (generate_response w ?s1))" by (rule g)
  qed (use o f in simp_all)
qed


theorem classifier_defaults_and_routing_witness:
  "messages ex_session \<noteq> []
   \<and> uc_intent (user_context ex_classified) = Some (JStr ''general_question'')
   \<and> run_graph ex_world ex_session
       = Inr (generate_response ex_world
                (analyze_portfolio ex_world (fetch_portfolio ex_world ex_classified)))"
proof -
  have m: "messages ex_session \<noteq> []" by (simp add: ex_session_def)
  have o: "oracle_record ex_world (m_content (last (messages ex_session)))
             = Some (JObj partial_record)"
    by (simp add: oracle_record_def ex_world_def partial_reply_match)
  from classifier_defaults_and_routing [OF m, of ex_world] ex_process_message o
  show ?thesis
    using m by (auto simp: ex_classified_def partial_record_def)
qed

section \<open>Properties of the turn\<close>









lemma zero_cost_fetch_returns: "fetch_portfolio_body zero_cost_world = Inr zero_cost_enriched"
proof -
  have "py_strip ''AAPL'' \<noteq> []" "py_strip (py_upper ''AAPL'') = ''AAPL''" by code_simp+
  then show ?thesis
    by (simp add: fetch_portfolio_body_def zero_cost_world_def ex_world_def
          get_portfolio_data_def get_portfolio_data_body_def parse_row_def row_item_def
          py_float_def ex_float_def update_portfolio_with_market_data_def
          update_portfolio_with_quotes_def get_multiple_market_data_def enrich_holding_def
          np_truediv_def ex_quote_def zero_cost_enriched_def)
qed

theorem enrichment_formulas_witness:
  "h_avg_cost (ledger_holding ''AAPL'' 2 100) \<noteq> 0
   \<and> h_gain_loss_percent (enrich_holding ex_quote (ledger_holding ''AAPL'' 2 100))
       = Some (Fin 100)
   \<and> h_avg_cost (ledger_holding ''AAPL'' 10 0) = 0
   \<and> h_value (enrich_holding ex_quote (ledger_holding ''AAPL'' 10 0)) = Some 2000
   \<and> h_gain_loss_percent (enrich_holding ex_quote (ledger_holding ''AAPL'' 10 0)) = Some PInf
   \<and> fetch_portfolio_body zero_cost_world = Inr zero_cost_enriched"
  using enrichment_formulas [of ex_quote "ledger_holding ''AAPL'' 2 100" zero_cost_world]
    enrichment_formulas [of ex_quote "ledger_holding ''AAPL'' 10 0" zero_cost_world]
    zero_cost_fetch_returns
  by (simp add: ledger_holding_def ex_quote_def)



end
